theory Spec2Isabelle
  imports Complex_Main
begin

section \<open>JavaScript numbers\<close>

text \<open>
  Every quantity of \<^verbatim>\<open>App.tsx\<close> is a JavaScript \<^verbatim>\<open>number\<close>. The model keeps the three
  special values of that type apart from the finite ones, because the guard of
  \<^verbatim>\<open>handleCalculate\<close> and the arithmetic behind it treat them differently. A finite number
  is modelled by the rational it denotes: the rounding of intermediate results to 53
  significant bits is not modelled, and neither is the sign of zero. The decimal constants
  of the source (\<^verbatim>\<open>1.1\<close>, \<^verbatim>\<open>0.1021\<close>, ...) are the rationals they are written as.
\<close>

datatype jsnum = NaN | PInf | NInf | Fin rat

fun isNaN :: "jsnum \<Rightarrow> bool" where
  "isNaN NaN = True"
| "isNaN _ = False"

fun isFinite :: "jsnum \<Rightarrow> bool" where
  "isFinite (Fin _) = True"
| "isFinite _ = False"

fun jneg :: "jsnum \<Rightarrow> jsnum" where
  "jneg NaN = NaN"
| "jneg PInf = NInf"
| "jneg NInf = PInf"
| "jneg (Fin a) = Fin (- a)"

text \<open>\<^verbatim>\<open>a + b\<close>: opposite infinities cancel to \<^verbatim>\<open>NaN\<close>.\<close>

fun jadd :: "jsnum \<Rightarrow> jsnum \<Rightarrow> jsnum" where
  "jadd (Fin a) (Fin b) = Fin (a + b)"
| "jadd NaN _ = NaN"
| "jadd _ NaN = NaN"
| "jadd PInf NInf = NaN"
| "jadd NInf PInf = NaN"
| "jadd PInf _ = PInf"
| "jadd _ PInf = PInf"
| "jadd NInf _ = NInf"
| "jadd _ NInf = NInf"

definition jsub :: "jsnum \<Rightarrow> jsnum \<Rightarrow> jsnum" where
  "jsub a b = jadd a (jneg b)"

text \<open>The sign of an infinite product or quotient, given the sign of the finite operand.\<close>

definition signed_inf :: "bool \<Rightarrow> jsnum" where
  "signed_inf positive = (if positive then PInf else NInf)"

text \<open>\<^verbatim>\<open>a * b\<close>: infinity times zero is \<^verbatim>\<open>NaN\<close>.\<close>

fun jmul :: "jsnum \<Rightarrow> jsnum \<Rightarrow> jsnum" where
  "jmul (Fin a) (Fin b) = Fin (a * b)"
| "jmul NaN _ = NaN"
| "jmul _ NaN = NaN"
| "jmul PInf PInf = PInf"
| "jmul PInf NInf = NInf"
| "jmul NInf PInf = NInf"
| "jmul NInf NInf = PInf"
| "jmul PInf (Fin b) = (if b = 0 then NaN else signed_inf (0 < b))"
| "jmul NInf (Fin b) = (if b = 0 then NaN else signed_inf (b < 0))"
| "jmul (Fin a) PInf = (if a = 0 then NaN else signed_inf (0 < a))"
| "jmul (Fin a) NInf = (if a = 0 then NaN else signed_inf (a < 0))"

text \<open>
  \<^verbatim>\<open>a / b\<close>: a finite number over an infinity is zero, zero over zero and infinity over
  infinity are \<^verbatim>\<open>NaN\<close>. The only zero of the model is the positive one.
\<close>

fun jdiv :: "jsnum \<Rightarrow> jsnum \<Rightarrow> jsnum" where
  "jdiv (Fin a) (Fin b) =
     (if b = 0 then (if a = 0 then NaN else signed_inf (0 < a)) else Fin (a / b))"
| "jdiv NaN _ = NaN"
| "jdiv _ NaN = NaN"
| "jdiv (Fin a) PInf = Fin 0"
| "jdiv (Fin a) NInf = Fin 0"
| "jdiv PInf (Fin b) = signed_inf (0 \<le> b)"
| "jdiv NInf (Fin b) = signed_inf (b < 0)"
| "jdiv _ _ = NaN"

text \<open>Comparisons: every comparison with \<^verbatim>\<open>NaN\<close> is false.\<close>

fun jle :: "jsnum \<Rightarrow> jsnum \<Rightarrow> bool" where
  "jle (Fin a) (Fin b) = (a \<le> b)"
| "jle NaN _ = False"
| "jle _ NaN = False"
| "jle NInf _ = True"
| "jle _ PInf = True"
| "jle PInf _ = False"
| "jle _ NInf = False"

fun jlt :: "jsnum \<Rightarrow> jsnum \<Rightarrow> bool" where
  "jlt (Fin a) (Fin b) = (a < b)"
| "jlt NaN _ = False"
| "jlt _ NaN = False"
| "jlt PInf _ = False"
| "jlt _ NInf = False"
| "jlt NInf _ = True"
| "jlt _ PInf = True"

definition jge :: "jsnum \<Rightarrow> jsnum \<Rightarrow> bool" where
  "jge a b = jle b a"

definition jgt :: "jsnum \<Rightarrow> jsnum \<Rightarrow> bool" where
  "jgt a b = jlt b a"

fun Math_floor :: "jsnum \<Rightarrow> jsnum" where
  "Math_floor (Fin a) = Fin (of_int \<lfloor>a\<rfloor>)"
| "Math_floor x = x"

text \<open>\<^verbatim>\<open>Math.max\<close> and \<^verbatim>\<open>Math.min\<close> return \<^verbatim>\<open>NaN\<close> as soon as one argument is \<^verbatim>\<open>NaN\<close>.\<close>

definition Math_max :: "jsnum \<Rightarrow> jsnum \<Rightarrow> jsnum" where
  "Math_max a b = (if isNaN a \<or> isNaN b then NaN else if jle a b then b else a)"

definition Math_min :: "jsnum \<Rightarrow> jsnum \<Rightarrow> jsnum" where
  "Math_min a b = (if isNaN a \<or> isNaN b then NaN else if jle a b then a else b)"

section \<open>Withholding\<close>

text \<open>
  \<^verbatim>\<open>
  const calculateWithholding = (amount: number, includesTax: boolean): number => {
    const baseAmount = includesTax ? amount / 1.1 : amount;
    return baseAmount >= 1000000 ? Math.floor(baseAmount * 0.2042)
                                 : Math.floor(baseAmount * 0.1021);
  };
  \<close>
\<close>

definition calculateWithholding :: "jsnum \<Rightarrow> bool \<Rightarrow> jsnum" where
  "calculateWithholding amount includesTax =
     (let baseAmount = (if includesTax then jdiv amount (Fin 1.1) else amount)
      in if jge baseAmount (Fin 1000000)
         then Math_floor (jmul baseAmount (Fin 0.2042))
         else Math_floor (jmul baseAmount (Fin 0.1021)))"

section \<open>Strings and the constant tables\<close>

text \<open>
  A string is the list of the bytes of its UTF-8 encoding; two strings of the source are
  equal exactly when their encodings are. The Japanese literals of the source are named
  by their readings.
\<close>

definition pref_Tokyo :: string where
  "pref_Tokyo = [CHR 0xE6, CHR 0x9D, CHR 0xB1, CHR 0xE4, CHR 0xBA, CHR 0xAC, CHR 0xE9, CHR 0x83, CHR 0xBD]"

definition pref_Osaka :: string where
  "pref_Osaka = [CHR 0xE5, CHR 0xA4, CHR 0xA7, CHR 0xE9, CHR 0x98, CHR 0xAA, CHR 0xE5, CHR 0xBA, CHR 0x9C]"

definition pref_Kanagawa :: string where
  "pref_Kanagawa = [CHR 0xE7, CHR 0xA5, CHR 0x9E, CHR 0xE5, CHR 0xA5, CHR 0x88, CHR 0xE5, CHR 0xB7, CHR 0x9D, CHR 0xE7, CHR 0x9C, CHR 0x8C]"

definition pref_Aichi :: string where
  "pref_Aichi = [CHR 0xE6, CHR 0x84, CHR 0x9B, CHR 0xE7, CHR 0x9F, CHR 0xA5, CHR 0xE7, CHR 0x9C, CHR 0x8C]"

definition pref_Fukuoka :: string where
  "pref_Fukuoka = [CHR 0xE7, CHR 0xA6, CHR 0x8F, CHR 0xE5, CHR 0xB2, CHR 0xA1, CHR 0xE7, CHR 0x9C, CHR 0x8C]"

definition pref_Hokkaido :: string where
  "pref_Hokkaido = [CHR 0xE5, CHR 0x8C, CHR 0x97, CHR 0xE6, CHR 0xB5, CHR 0xB7, CHR 0xE9, CHR 0x81, CHR 0x93]"

definition pref_Saitama :: string where
  "pref_Saitama = [CHR 0xE5, CHR 0x9F, CHR 0xBC, CHR 0xE7, CHR 0x8E, CHR 0x89, CHR 0xE7, CHR 0x9C, CHR 0x8C]"

definition pref_Chiba :: string where
  "pref_Chiba = [CHR 0xE5, CHR 0x8D, CHR 0x83, CHR 0xE8, CHR 0x91, CHR 0x89, CHR 0xE7, CHR 0x9C, CHR 0x8C]"

definition pref_Hyogo :: string where
  "pref_Hyogo = [CHR 0xE5, CHR 0x85, CHR 0xB5, CHR 0xE5, CHR 0xBA, CHR 0xAB, CHR 0xE7, CHR 0x9C, CHR 0x8C]"

definition pref_Kyoto :: string where
  "pref_Kyoto = [CHR 0xE4, CHR 0xBA, CHR 0xAC, CHR 0xE9, CHR 0x83, CHR 0xBD, CHR 0xE5, CHR 0xBA, CHR 0x9C]"

definition pref_Sonota :: string where
  "pref_Sonota = [CHR 0xE3, CHR 0x81, CHR 0x9D, CHR 0xE3, CHR 0x81, CHR 0xAE, CHR 0xE4, CHR 0xBB, CHR 0x96]"

definition biz_Buppin_hanbai :: string where
  "biz_Buppin_hanbai = [CHR 0xE7, CHR 0x89, CHR 0xA9, CHR 0xE5, CHR 0x93, CHR 0x81, CHR 0xE8, CHR 0xB2, CHR 0xA9, CHR 0xE5, CHR 0xA3, CHR 0xB2, CHR 0xE6, CHR 0xA5, CHR 0xAD]"

definition biz_Seizo :: string where
  "biz_Seizo = [CHR 0xE8, CHR 0xA3, CHR 0xBD, CHR 0xE9, CHR 0x80, CHR 0xA0, CHR 0xE6, CHR 0xA5, CHR 0xAD]"

definition biz_Ukeoi :: string where
  "biz_Ukeoi = [CHR 0xE8, CHR 0xAB, CHR 0x8B, CHR 0xE8, CHR 0xB2, CHR 0xA0, CHR 0xE6, CHR 0xA5, CHR 0xAD]"

definition biz_Consultant :: string where
  "biz_Consultant = [CHR 0xE3, CHR 0x82, CHR 0xB3, CHR 0xE3, CHR 0x83, CHR 0xB3, CHR 0xE3, CHR 0x82, CHR 0xB5, CHR 0xE3, CHR 0x83, CHR 0xAB, CHR 0xE3, CHR 0x82, CHR 0xBF, CHR 0xE3, CHR 0x83, CHR 0xB3, CHR 0xE3, CHR 0x83, CHR 0x88, CHR 0xE6, CHR 0xA5, CHR 0xAD]"

definition biz_Design :: string where
  "biz_Design = [CHR 0xE3, CHR 0x83, CHR 0x87, CHR 0xE3, CHR 0x82, CHR 0xB6, CHR 0xE3, CHR 0x82, CHR 0xA4, CHR 0xE3, CHR 0x83, CHR 0xB3, CHR 0xE6, CHR 0xA5, CHR 0xAD]"

definition biz_Programming :: string where
  "biz_Programming = [CHR 0xE3, CHR 0x83, CHR 0x97, CHR 0xE3, CHR 0x83, CHR 0xAD, CHR 0xE3, CHR 0x82, CHR 0xB0, CHR 0xE3, CHR 0x83, CHR 0xA9, CHR 0xE3, CHR 0x83, CHR 0x9F, CHR 0xE3, CHR 0x83, CHR 0xB3, CHR 0xE3, CHR 0x82, CHR 0xB0, CHR 0xE6, CHR 0xA5, CHR 0xAD]"

definition biz_Sonota_no_jigyo :: string where
  "biz_Sonota_no_jigyo = [CHR 0xE3, CHR 0x81, CHR 0x9D, CHR 0xE3, CHR 0x81, CHR 0xAE, CHR 0xE4, CHR 0xBB, CHR 0x96, CHR 0xE3, CHR 0x81, CHR 0xAE, CHR 0xE4, CHR 0xBA, CHR 0x8B, CHR 0xE6, CHR 0xA5, CHR 0xAD]"

text \<open>The value of the last option of the business-type selector, which is not in \<^verbatim>\<open>BUSINESS_TAX_TYPES\<close>.\<close>

definition biz_Hikazei :: string where
  "biz_Hikazei = [CHR 0xE9, CHR 0x9D, CHR 0x9E, CHR 0xE8, CHR 0xAA, CHR 0xB2, CHR 0xE7, CHR 0xA8, CHR 0x8E]"

text \<open>The project name used when the form field is empty.\<close>

definition name_unset :: string where
  "name_unset = [CHR 0xE6, CHR 0xA1, CHR 0x88, CHR 0xE4, CHR 0xBB, CHR 0xB6, CHR 0xE5, CHR 0x90, CHR 0x8D, CHR 0xE6, CHR 0x9C, CHR 0xAA, CHR 0xE8, CHR 0xA8, CHR 0xAD, CHR 0xE5, CHR 0xAE, CHR 0x9A]"

record rate =
  incomeRate :: jsnum
  flatRate :: jsnum

text \<open>\<^verbatim>\<open>HEALTH_INSURANCE_RATES\<close>, an object literal: its own properties in source order.\<close>

definition HEALTH_INSURANCE_RATES :: "(string \<times> rate) list" where
  "HEALTH_INSURANCE_RATES =
    [(pref_Tokyo, \<lparr>incomeRate = Fin 0.0976, flatRate = Fin 53400\<rparr>),
     (pref_Osaka, \<lparr>incomeRate = Fin 0.1012, flatRate = Fin 49152\<rparr>),
     (pref_Kanagawa, \<lparr>incomeRate = Fin 0.0931, flatRate = Fin 48500\<rparr>),
     (pref_Aichi, \<lparr>incomeRate = Fin 0.0889, flatRate = Fin 45600\<rparr>),
     (pref_Fukuoka, \<lparr>incomeRate = Fin 0.1043, flatRate = Fin 42300\<rparr>),
     (pref_Hokkaido, \<lparr>incomeRate = Fin 0.1087, flatRate = Fin 39800\<rparr>),
     (pref_Saitama, \<lparr>incomeRate = Fin 0.0925, flatRate = Fin 47100\<rparr>),
     (pref_Chiba, \<lparr>incomeRate = Fin 0.0945, flatRate = Fin 46200\<rparr>),
     (pref_Hyogo, \<lparr>incomeRate = Fin 0.0998, flatRate = Fin 44100\<rparr>),
     (pref_Kyoto, \<lparr>incomeRate = Fin 0.0967, flatRate = Fin 46800\<rparr>),
     (pref_Sonota, \<lparr>incomeRate = Fin 0.0950, flatRate = Fin 45000\<rparr>)]"

text \<open>\<^verbatim>\<open>BUSINESS_TAX_TYPES\<close>, an array of strings.\<close>

definition BUSINESS_TAX_TYPES :: "string list" where
  "BUSINESS_TAX_TYPES =
    [biz_Buppin_hanbai, biz_Seizo, biz_Ukeoi, biz_Consultant, biz_Design, biz_Programming, biz_Sonota_no_jigyo]"

text \<open>
  Reading \<^verbatim>\<open>obj[key]\<close> on an object literal looks at the object's own properties and then
  at its prototype, \<^verbatim>\<open>Object.prototype\<close>, whose members are functions (and, for
  \<^verbatim>\<open>__proto__\<close>, the prototype object itself). A key found nowhere reads as
  \<^verbatim>\<open>undefined\<close>.
\<close>

definition Object_prototype_names :: "string list" where
  "Object_prototype_names =
    [''constructor'', ''__defineGetter__'', ''__defineSetter__'', ''hasOwnProperty'',
     ''__lookupGetter__'', ''__lookupSetter__'', ''isPrototypeOf'', ''propertyIsEnumerable'',
     ''toString'', ''valueOf'', ''__proto__'', ''toLocaleString'']"

datatype jsvalue = Undefined | RateObject rate | Inherited

definition get_property :: "(string \<times> rate) list \<Rightarrow> string \<Rightarrow> jsvalue" where
  "get_property obj key =
     (case map_of obj key of
        Some r \<Rightarrow> RateObject r
      | None \<Rightarrow> if key \<in> set Object_prototype_names then Inherited else Undefined)"

text \<open>\<^verbatim>\<open>a || b\<close> on these values: objects and functions are truthy, \<^verbatim>\<open>undefined\<close> is falsy.\<close>

definition js_or :: "jsvalue \<Rightarrow> jsvalue \<Rightarrow> jsvalue" where
  "js_or a b = (if a = Undefined then b else a)"

text \<open>
  \<^verbatim>\<open>v.incomeRate\<close> and \<^verbatim>\<open>v.flatRate\<close>, as operands of arithmetic. An inherited member has
  neither field: the read gives \<^verbatim>\<open>undefined\<close>, which arithmetic converts to \<^verbatim>\<open>NaN\<close>.
  Reading a field of \<^verbatim>\<open>undefined\<close> itself would throw; \<open>insuranceRate_defined\<close> below
  shows that \<^verbatim>\<open>calculateDetailedTax\<close> never does so.
\<close>

fun incomeRate_of :: "jsvalue \<Rightarrow> jsnum" where
  "incomeRate_of (RateObject r) = incomeRate r"
| "incomeRate_of _ = NaN"

fun flatRate_of :: "jsvalue \<Rightarrow> jsnum" where
  "flatRate_of (RateObject r) = flatRate r"
| "flatRate_of _ = NaN"

section \<open>The annual tax breakdown\<close>

record TaxBreakdown =
  incomeTax :: jsnum
  residentTax :: jsnum
  healthInsurance :: jsnum
  pension :: jsnum
  businessTax :: jsnum
  total :: jsnum

text \<open>The union type \<^verbatim>\<open>'65' | '55' | '10' | 'white'\<close>.\<close>

datatype blueReturn = Blue65 | Blue55 | Blue10 | White

record UserSettings =
  blueReturnType :: blueReturn
  spouseDeduction :: bool
  dependents :: jsnum
  expenseRate :: jsnum
  prefecture :: string
  businessType :: string

text \<open>
  The local constants of \<^verbatim>\<open>calculateDetailedTax\<close>, one definition each, in the order of the
  source and with its parenthesisation (binary operators associate to the left).
  \<^verbatim>\<open>
  const expenses = annualIncome * (settings.expenseRate / 100);
  const revenue = annualIncome - expenses;
  \<close>
\<close>

definition expenses_of :: "jsnum \<Rightarrow> UserSettings \<Rightarrow> jsnum" where
  "expenses_of annualIncome settings = jmul annualIncome (jdiv (expenseRate settings) (Fin 100))"

definition revenue_of :: "jsnum \<Rightarrow> UserSettings \<Rightarrow> jsnum" where
  "revenue_of annualIncome settings = jsub annualIncome (expenses_of annualIncome settings)"

text \<open>
  \<^verbatim>\<open>
  let blueReturnDeduction = 0;
  if (settings.blueReturnType === '65') blueReturnDeduction = 650000;
  else if (settings.blueReturnType === '55') blueReturnDeduction = 550000;
  else if (settings.blueReturnType === '10') blueReturnDeduction = 100000;
  \<close>
\<close>

fun blueReturnDeduction_of :: "blueReturn \<Rightarrow> jsnum" where
  "blueReturnDeduction_of Blue65 = Fin 650000"
| "blueReturnDeduction_of Blue55 = Fin 550000"
| "blueReturnDeduction_of Blue10 = Fin 100000"
| "blueReturnDeduction_of White = Fin 0"

text \<open>
  \<^verbatim>\<open>
  const basicDeduction = 480000;
  const spouseDeduction = settings.spouseDeduction ? 380000 : 0;
  const dependentDeduction = settings.dependents * 380000;
  const socialInsuranceDeduction = 199200;
  const taxableIncome = Math.max(0,
    revenue - blueReturnDeduction - basicDeduction - spouseDeduction
            - dependentDeduction - socialInsuranceDeduction);
  \<close>
  \<open>netOfDeductions\<close> names the second argument of \<^verbatim>\<open>Math.max\<close>.
\<close>

definition basicDeduction :: jsnum where
  "basicDeduction = Fin 480000"

definition spouseDeduction_of :: "UserSettings \<Rightarrow> jsnum" where
  "spouseDeduction_of settings = (if spouseDeduction settings then Fin 380000 else Fin 0)"

definition dependentDeduction_of :: "UserSettings \<Rightarrow> jsnum" where
  "dependentDeduction_of settings = jmul (dependents settings) (Fin 380000)"

definition socialInsuranceDeduction :: jsnum where
  "socialInsuranceDeduction = Fin 199200"

definition netOfDeductions :: "jsnum \<Rightarrow> UserSettings \<Rightarrow> jsnum" where
  "netOfDeductions annualIncome settings =
     jsub (jsub (jsub (jsub (jsub (revenue_of annualIncome settings)
       (blueReturnDeduction_of (blueReturnType settings)))
       basicDeduction)
       (spouseDeduction_of settings))
       (dependentDeduction_of settings))
       socialInsuranceDeduction"

definition taxableIncome_of :: "jsnum \<Rightarrow> UserSettings \<Rightarrow> jsnum" where
  "taxableIncome_of annualIncome settings = Math_max (Fin 0) (netOfDeductions annualIncome settings)"

text \<open>
  The progressive schedule, before the surcharge:
  \<^verbatim>\<open>
  if (taxableIncome <= 1950000) incomeTax = taxableIncome * 0.05;
  else if (taxableIncome <= 3300000)
    incomeTax = 1950000 * 0.05 + (taxableIncome - 1950000) * 0.1;
  else if (taxableIncome <= 6950000)
    incomeTax = 1950000 * 0.05 + 1350000 * 0.1 + (taxableIncome - 3300000) * 0.2;
  else if (taxableIncome <= 9000000)
    incomeTax = 1950000 * 0.05 + 1350000 * 0.1 + 3650000 * 0.2
              + (taxableIncome - 6950000) * 0.23;
  else
    incomeTax = 1950000 * 0.05 + 1350000 * 0.1 + 3650000 * 0.2 + 2050000 * 0.23
              + (taxableIncome - 9000000) * 0.33;
  \<close>
\<close>

definition progressiveTax :: "jsnum \<Rightarrow> jsnum" where
  "progressiveTax taxableIncome =
     (if jle taxableIncome (Fin 1950000) then
        jmul taxableIncome (Fin 0.05)
      else if jle taxableIncome (Fin 3300000) then
        jadd (jmul (Fin 1950000) (Fin 0.05))
             (jmul (jsub taxableIncome (Fin 1950000)) (Fin 0.1))
      else if jle taxableIncome (Fin 6950000) then
        jadd (jadd (jmul (Fin 1950000) (Fin 0.05)) (jmul (Fin 1350000) (Fin 0.1)))
             (jmul (jsub taxableIncome (Fin 3300000)) (Fin 0.2))
      else if jle taxableIncome (Fin 9000000) then
        jadd (jadd (jadd (jmul (Fin 1950000) (Fin 0.05)) (jmul (Fin 1350000) (Fin 0.1)))
                   (jmul (Fin 3650000) (Fin 0.2)))
             (jmul (jsub taxableIncome (Fin 6950000)) (Fin 0.23))
      else
        jadd (jadd (jadd (jadd (jmul (Fin 1950000) (Fin 0.05)) (jmul (Fin 1350000) (Fin 0.1)))
                         (jmul (Fin 3650000) (Fin 0.2)))
                   (jmul (Fin 2050000) (Fin 0.23)))
             (jmul (jsub taxableIncome (Fin 9000000)) (Fin 0.33)))"

text \<open>
  \<^verbatim>\<open>
  incomeTax = Math.floor(incomeTax * 1.021);
  const residentTax = Math.floor(taxableIncome * 0.1) + 5000;
  \<close>
\<close>

definition incomeTax_of :: "jsnum \<Rightarrow> jsnum" where
  "incomeTax_of taxableIncome = Math_floor (jmul (progressiveTax taxableIncome) (Fin 1.021))"

definition residentTax_of :: "jsnum \<Rightarrow> jsnum" where
  "residentTax_of taxableIncome = jadd (Math_floor (jmul taxableIncome (Fin 0.1))) (Fin 5000)"

text \<open>
  \<^verbatim>\<open>
  const insuranceRate = HEALTH_INSURANCE_RATES[settings.prefecture]
                     || HEALTH_INSURANCE_RATES['...'];      // the last key of the table
  const healthInsurance = Math.min(
    Math.floor(revenue * insuranceRate.incomeRate) + insuranceRate.flatRate,
    1020000);
  \<close>
\<close>

definition insuranceRate_of :: "UserSettings \<Rightarrow> jsvalue" where
  "insuranceRate_of settings =
     js_or (get_property HEALTH_INSURANCE_RATES (prefecture settings))
           (get_property HEALTH_INSURANCE_RATES pref_Sonota)"

definition healthInsurance_of :: "jsnum \<Rightarrow> jsvalue \<Rightarrow> jsnum" where
  "healthInsurance_of revenue insuranceRate =
     Math_min (jadd (Math_floor (jmul revenue (incomeRate_of insuranceRate)))
                    (flatRate_of insuranceRate))
              (Fin 1020000)"

text \<open>
  \<^verbatim>\<open>
  const pension = 199200;
  let businessTax = 0;
  if (BUSINESS_TAX_TYPES.includes(settings.businessType) && revenue > 2900000) {
    businessTax = Math.floor((revenue - 2900000) * 0.05);
  }
  \<close>
\<close>

definition pension_const :: jsnum where
  "pension_const = Fin 199200"

definition businessTax_of :: "jsnum \<Rightarrow> UserSettings \<Rightarrow> jsnum" where
  "businessTax_of revenue settings =
     (if businessType settings \<in> set BUSINESS_TAX_TYPES \<and> jgt revenue (Fin 2900000)
      then Math_floor (jmul (jsub revenue (Fin 2900000)) (Fin 0.05))
      else Fin 0)"

text \<open>
  \<^verbatim>\<open>
  return { incomeTax, residentTax, healthInsurance, pension, businessTax,
           total: incomeTax + residentTax + healthInsurance + pension + businessTax };
  \<close>
\<close>

definition calculateDetailedTax :: "jsnum \<Rightarrow> UserSettings \<Rightarrow> TaxBreakdown" where
  "calculateDetailedTax annualIncome settings =
     (let revenue = revenue_of annualIncome settings;
          taxableIncome = taxableIncome_of annualIncome settings;
          incomeTax = incomeTax_of taxableIncome;
          residentTax = residentTax_of taxableIncome;
          healthInsurance = healthInsurance_of revenue (insuranceRate_of settings);
          pension = pension_const;
          businessTax = businessTax_of revenue settings
      in \<lparr>incomeTax = incomeTax,
          residentTax = residentTax,
          healthInsurance = healthInsurance,
          pension = pension,
          businessTax = businessTax,
          total = jadd (jadd (jadd (jadd incomeTax residentTax) healthInsurance) pension)
                       businessTax\<rparr>)"

section \<open>Reading the amount field\<close>

text \<open>
  \<^verbatim>\<open>parseFloat\<close> skips leading white space, reads the longest prefix that is a signed
  decimal literal (digits with an optional fraction and an optional exponent, or the word
  \<^verbatim>\<open>Infinity\<close>) and ignores what follows; with no such prefix the result is \<^verbatim>\<open>NaN\<close>.
  The model gives a literal its exact decimal value and knows the ASCII white space only.
\<close>

definition StrWhiteSpaceChar :: "char \<Rightarrow> bool" where
  "StrWhiteSpaceChar c \<longleftrightarrow> c \<in> set [CHR 0x09, CHR 0x0A, CHR 0x0B, CHR 0x0C, CHR 0x0D, CHR 0x20]"

definition digit :: "char \<Rightarrow> nat option" where
  "digit = map_of [(CHR ''0'', 0), (CHR ''1'', 1), (CHR ''2'', 2), (CHR ''3'', 3), (CHR ''4'', 4),
                   (CHR ''5'', 5), (CHR ''6'', 6), (CHR ''7'', 7), (CHR ''8'', 8), (CHR ''9'', 9)]"

definition is_digit :: "char \<Rightarrow> bool" where
  "is_digit c \<longleftrightarrow> digit c \<noteq> None"

definition digits_value :: "string \<Rightarrow> nat" where
  "digits_value ds = foldl (\<lambda>n c. 10 * n + (case digit c of Some d \<Rightarrow> d | None \<Rightarrow> 0)) 0 ds"

text \<open>The exponent part at the head of \<open>r\<close>, or \<open>0\<close> when \<open>r\<close> does not start with one.\<close>

definition exponent_of :: "string \<Rightarrow> int" where
  "exponent_of r =
     (case r of
        [] \<Rightarrow> 0
      | e # r' \<Rightarrow>
          if e = CHR ''e'' \<or> e = CHR ''E'' then
            (let negative = (case r' of [] \<Rightarrow> False | c # _ \<Rightarrow> c = CHR ''-'');
                 signed = (case r' of [] \<Rightarrow> False | c # _ \<Rightarrow> c = CHR ''-'' \<or> c = CHR ''+'');
                 ds = takeWhile is_digit (if signed then tl r' else r')
             in if ds = [] then 0
                else if negative then - int (digits_value ds) else int (digits_value ds))
          else 0)"

definition scale10 :: "rat \<Rightarrow> int \<Rightarrow> rat" where
  "scale10 m e = (if 0 \<le> e then m * 10 ^ nat e else m / 10 ^ nat (- e))"

definition StrUnsignedDecimalLiteral :: "string \<Rightarrow> jsnum" where
  "StrUnsignedDecimalLiteral s =
     (if take 8 s = ''Infinity'' then PInf
      else
        (let ds1 = takeWhile is_digit s; r1 = dropWhile is_digit s
         in case r1 of
              [] \<Rightarrow> if ds1 = [] then NaN else Fin (of_nat (digits_value ds1))
            | c # t \<Rightarrow>
                if c = CHR ''.'' then
                  (let ds2 = takeWhile is_digit t; r2 = dropWhile is_digit t
                   in if ds1 = [] \<and> ds2 = [] then NaN
                      else Fin (scale10 (of_nat (digits_value ds1)
                                         + of_nat (digits_value ds2) / 10 ^ length ds2)
                                        (exponent_of r2)))
                else if ds1 = [] then NaN
                else Fin (scale10 (of_nat (digits_value ds1)) (exponent_of r1))))"

definition parseFloat :: "string \<Rightarrow> jsnum" where
  "parseFloat s =
     (let t = dropWhile StrWhiteSpaceChar s
      in case t of
           [] \<Rightarrow> NaN
         | c # r \<Rightarrow>
             if c = CHR ''-'' then jneg (StrUnsignedDecimalLiteral r)
             else if c = CHR ''+'' then StrUnsignedDecimalLiteral r
             else StrUnsignedDecimalLiteral t)"

section \<open>The calculation handler\<close>

text \<open>
  \<^verbatim>\<open>
  const withholdingAmount = hasWithholding ? calculateWithholding(amountNum, includesTax) : 0;
  const consumptionTax = includesTax ? amountNum - (amountNum / 1.1) : amountNum * 0.1;
  const depositAmount = includesTax
    ? amountNum - withholdingAmount
    : amountNum + consumptionTax - withholdingAmount;
  \<close>
\<close>

definition withholdingAmount_of :: "jsnum \<Rightarrow> bool \<Rightarrow> bool \<Rightarrow> jsnum" where
  "withholdingAmount_of amountNum includesTax hasWithholding =
     (if hasWithholding then calculateWithholding amountNum includesTax else Fin 0)"

definition consumptionTax_of :: "jsnum \<Rightarrow> bool \<Rightarrow> jsnum" where
  "consumptionTax_of amountNum includesTax =
     (if includesTax then jsub amountNum (jdiv amountNum (Fin 1.1)) else jmul amountNum (Fin 0.1))"

definition depositAmount_of :: "jsnum \<Rightarrow> bool \<Rightarrow> bool \<Rightarrow> jsnum" where
  "depositAmount_of amountNum includesTax hasWithholding =
     (if includesTax
      then jsub amountNum (withholdingAmount_of amountNum includesTax hasWithholding)
      else jsub (jadd amountNum (consumptionTax_of amountNum includesTax))
                (withholdingAmount_of amountNum includesTax hasWithholding))"

text \<open>
  One history entry. \<^verbatim>\<open>id\<close> and \<^verbatim>\<open>date\<close> are both printed from the clock
  (\<^verbatim>\<open>Date.now().toString()\<close>, \<^verbatim>\<open>new Date().toISOString()\<close>); the model stores the clock
  reading, in milliseconds, in their place.
\<close>

record ProjectCalculation =
  calc_id :: nat
  date :: nat
  projectName :: string
  amount :: jsnum
  includesTax :: bool
  hasWithholding :: bool
  withholdingAmount :: jsnum
  depositAmount :: jsnum
  estimatedTakeHome :: jsnum
  taxBreakdown :: TaxBreakdown

text \<open>
  The component state that \<^verbatim>\<open>handleCalculate\<close> reads and writes. The four form fields carry
  the suffix \<open>_form\<close>, their names being those of the fields of a history entry. Writing the
  history to the storage service is left out.
\<close>

record app_state =
  calculations :: "ProjectCalculation list"
  settings :: UserSettings
  projectName_form :: string
  amount_form :: string
  includesTax_form :: bool
  hasWithholding_form :: bool
  result :: "ProjectCalculation option"

text \<open>The calls of the two calculators that a run of the handler makes, with their arguments.\<close>

datatype call = WithholdingCall jsnum bool | DetailedTaxCall jsnum UserSettings

text \<open>
  \<^verbatim>\<open>
  const recentCalculations = calculations.slice(-3);
  const avgMonthly = recentCalculations.length > 0
    ? recentCalculations.reduce((sum, calc) => sum + calc.amount, 0) / recentCalculations.length
    : amountNum;
  const annualIncome = avgMonthly * 12;
  \<close>
  \<^verbatim>\<open>slice(-3)\<close> starts at index \<^verbatim>\<open>max(length - 3, 0)\<close>.
\<close>

definition recentCalculations_of :: "ProjectCalculation list \<Rightarrow> ProjectCalculation list" where
  "recentCalculations_of cs = drop (length cs - 3) cs"

definition avgMonthly_of :: "ProjectCalculation list \<Rightarrow> jsnum \<Rightarrow> jsnum" where
  "avgMonthly_of cs amountNum =
     (let recentCalculations = recentCalculations_of cs
      in if 0 < length recentCalculations
         then jdiv (foldl (\<lambda>sum calc. jadd sum (amount calc)) (Fin 0) recentCalculations)
                   (Fin (of_nat (length recentCalculations)))
         else amountNum)"

definition annualIncome_of :: "ProjectCalculation list \<Rightarrow> jsnum \<Rightarrow> jsnum" where
  "annualIncome_of cs amountNum = jmul (avgMonthly_of cs amountNum) (Fin 12)"

text \<open>
  \<^verbatim>\<open>
  const taxBreakdown = calculateDetailedTax(annualIncome, settings);
  const monthlyTaxBurden = taxBreakdown.total / 12;
  const estimatedTakeHome = depositAmount - monthlyTaxBurden;
  const newCalculation: ProjectCalculation = { id: ..., date: ...,
    projectName: projectName || '...', amount: amountNum, includesTax, hasWithholding,
    withholdingAmount, depositAmount, estimatedTakeHome, taxBreakdown };
  \<close>
  The empty string is falsy, so an empty project name is replaced by the placeholder.
\<close>

definition newCalculation_of :: "nat \<Rightarrow> app_state \<Rightarrow> jsnum \<Rightarrow> ProjectCalculation" where
  "newCalculation_of now st amountNum =
     (let withholdingAmount =
            withholdingAmount_of amountNum (includesTax_form st) (hasWithholding_form st);
          depositAmount = depositAmount_of amountNum (includesTax_form st) (hasWithholding_form st);
          annualIncome = annualIncome_of (calculations st) amountNum;
          taxBreakdown = calculateDetailedTax annualIncome (settings st);
          monthlyTaxBurden = jdiv (total taxBreakdown) (Fin 12);
          estimatedTakeHome = jsub depositAmount monthlyTaxBurden
      in \<lparr>calc_id = now,
          date = now,
          projectName = (if projectName_form st = [] then name_unset else projectName_form st),
          amount = amountNum,
          includesTax = includesTax_form st,
          hasWithholding = hasWithholding_form st,
          withholdingAmount = withholdingAmount,
          depositAmount = depositAmount,
          estimatedTakeHome = estimatedTakeHome,
          taxBreakdown = taxBreakdown\<rparr>)"

text \<open>The calculator calls of a run that passes the guard, in the order of the source.\<close>

definition calls_of :: "app_state \<Rightarrow> jsnum \<Rightarrow> call list" where
  "calls_of st amountNum =
     (if hasWithholding_form st then [WithholdingCall amountNum (includesTax_form st)] else [])
     @ [DetailedTaxCall (annualIncome_of (calculations st) amountNum) (settings st)]"

text \<open>
  \<^verbatim>\<open>
  const handleCalculate = () => {
    const amountNum = parseFloat(amount);
    if (isNaN(amountNum) || amountNum <= 0) return;
    ...
    setResult(newCalculation);
    saveCalculations([...calculations, newCalculation]);
    setProjectName('');
    setAmount('');
  };
  \<close>
  The handler maps the state before the click, and the clock reading \<open>now\<close>, to the state
  after it and the list of calculator calls it made.
\<close>

definition handleCalculate :: "nat \<Rightarrow> app_state \<Rightarrow> app_state \<times> call list" where
  "handleCalculate now st =
     (let amountNum = parseFloat (amount_form st)
      in if isNaN amountNum \<or> jle amountNum (Fin 0) then (st, [])
         else
           (let newCalculation = newCalculation_of now st amountNum
            in (st\<lparr>result := Some newCalculation,
                    calculations := calculations st @ [newCalculation],
                    projectName_form := [],
                    amount_form := []\<rparr>,
                calls_of st amountNum)))"

text \<open>
  The state the component starts in (the arguments of its \<^verbatim>\<open>useState\<close> calls):
  \<^verbatim>\<open>
  useState<UserSettings>({ blueReturnType: '65', spouseDeduction: false, dependents: 0,
    expenseRate: 30, prefecture: ..., businessType: ... });   // the first prefecture of the
                                                              // table, the sixth business type
  useState<ProjectCalculation[]>([]);  useState('');  useState('');
  useState(true);  useState(true);  useState<ProjectCalculation | null>(null);
  \<close>
\<close>

definition default_settings :: UserSettings where
  "default_settings =
     \<lparr>blueReturnType = Blue65, spouseDeduction = False, dependents = Fin 0, expenseRate = Fin 30,
      prefecture = pref_Tokyo, businessType = biz_Programming\<rparr>"

definition initial_state :: app_state where
  "initial_state =
     \<lparr>calculations = [], settings = default_settings, projectName_form = [], amount_form = [],
      includesTax_form = True, hasWithholding_form = True, result = None\<rparr>"

section \<open>Example states and arithmetic on rationals\<close>

text \<open>
  Two states the examples below run the handler in: the initial state with 100000 typed into
  the amount field and both boxes unticked, and a state with four earlier payments.
\<close>

definition example_state :: app_state where
  "example_state =
     initial_state\<lparr>amount_form := ''100000'', includesTax_form := False,
                    hasWithholding_form := False\<rparr>"

definition history_state :: app_state where
  "history_state =
     initial_state
       \<lparr>calculations := map (\<lambda>x. newCalculation_of 0 initial_state (Fin x))
                            [100000, 200000, 300000, 400000],
        amount_form := ''500000''\<rparr>"

text \<open>
  What the source computes on finite numbers, written on the rationals; the lemmas
  \<open>progressiveTax_Fin\<close>, \<open>netOfDeductions_Fin\<close> and \<open>calculateDetailedTax_Fin\<close> tie each
  to the definition translated from the source. \<open>ptax\<close> is the progressive schedule with
  the constant part of every bracket added up, \<open>deductions_sum\<close> the sum of the five
  deductions for \<open>d\<close> dependents, \<open>total_rat\<close> the sum of the five components for taxable
  income \<open>t\<close>, revenue after expenses \<open>v\<close> and regional rates \<open>ir\<close> and \<open>fr\<close>.
\<close>

definition ptax :: "rat \<Rightarrow> rat" where
  "ptax t =
     (if t \<le> 1950000 then t / 20
      else if t \<le> 3300000 then t / 10 - 97500
      else if t \<le> 6950000 then t / 5 - 427500
      else if t \<le> 9000000 then 23 * t / 100 - 636000
      else 33 * t / 100 - 1536000)"

definition deductions_sum :: "UserSettings \<Rightarrow> rat \<Rightarrow> rat" where
  "deductions_sum s d =
     (case blueReturnType s of
        Blue65 \<Rightarrow> 650000 | Blue55 \<Rightarrow> 550000 | Blue10 \<Rightarrow> 100000 | White \<Rightarrow> 0)
     + 480000 + (if spouseDeduction s then 380000 else 0) + d * 380000 + 199200"


text \<open>
  The estimate of the monthly income as the specification words it: the arithmetic mean of
  the last three amounts of the history, or of all of them when there are fewer.
\<close>

definition spec_trailing_mean :: "rat list \<Rightarrow> rat" where
  "spec_trailing_mean xs = sum_list (drop (length xs - 3) xs) / of_nat (min 3 (length xs))"

section \<open>Facts about the tables\<close>

lemmas literal_defs =
  pref_Tokyo_def pref_Osaka_def pref_Kanagawa_def pref_Aichi_def pref_Fukuoka_def
  pref_Hokkaido_def pref_Saitama_def pref_Chiba_def pref_Hyogo_def pref_Kyoto_def pref_Sonota_def
  biz_Buppin_hanbai_def biz_Seizo_def biz_Ukeoi_def biz_Consultant_def biz_Design_def
  biz_Programming_def biz_Sonota_no_jigyo_def biz_Hikazei_def name_unset_def

lemma default_bucket:
  "get_property HEALTH_INSURANCE_RATES pref_Sonota =
     RateObject \<lparr>incomeRate = Fin 0.0950, flatRate = Fin 45000\<rparr>"
  by (simp add: get_property_def HEALTH_INSURANCE_RATES_def literal_defs)

lemma insuranceRate_defined: "insuranceRate_of s \<noteq> Undefined"
  by (simp add: insuranceRate_of_def js_or_def default_bucket)

lemma own_rates:
  assumes "map_of HEALTH_INSURANCE_RATES k = Some r"
  shows "isFinite (incomeRate r) \<and> isFinite (flatRate r)
       \<and> jle (Fin 0) (incomeRate r) \<and> jle (Fin 0) (flatRate r)"
proof -
  from assms have "(k, r) \<in> set HEALTH_INSURANCE_RATES" by (rule map_of_SomeD)
  then show ?thesis
    unfolding HEALTH_INSURANCE_RATES_def by auto
qed

text \<open>
  A key that is not the name of an inherited member resolves to a bucket of the table, its
  own or the last one, and every bucket holds two finite, non-negative numbers.
\<close>

lemma insuranceRate_bucket:
  assumes "prefecture s \<notin> set Object_prototype_names"
  obtains ir fr where
    "insuranceRate_of s = RateObject \<lparr>incomeRate = Fin ir, flatRate = Fin fr\<rparr>"
    and "0 \<le> ir" and "0 \<le> fr"
proof -
  have "\<exists>r. insuranceRate_of s = RateObject r \<and> isFinite (incomeRate r) \<and> isFinite (flatRate r)
          \<and> jle (Fin 0) (incomeRate r) \<and> jle (Fin 0) (flatRate r)"
  proof (cases "map_of HEALTH_INSURANCE_RATES (prefecture s)")
    case None
    with assms have "get_property HEALTH_INSURANCE_RATES (prefecture s) = Undefined"
      by (simp add: get_property_def)
    then have "insuranceRate_of s = RateObject \<lparr>incomeRate = Fin 0.0950, flatRate = Fin 45000\<rparr>"
      by (simp add: insuranceRate_of_def js_or_def default_bucket)
    then show ?thesis by simp
  next
    case (Some r)
    then have "insuranceRate_of s = RateObject r"
      by (simp add: insuranceRate_of_def js_or_def get_property_def)
    with own_rates[OF Some] show ?thesis by simp
  qed
  then obtain r where r: "insuranceRate_of s = RateObject r" "isFinite (incomeRate r)"
    "isFinite (flatRate r)" "jle (Fin 0) (incomeRate r)" "jle (Fin 0) (flatRate r)" by blast
  obtain ir where ir: "incomeRate r = Fin ir" using r(2) by (cases "incomeRate r") simp_all
  obtain fr where fr: "flatRate r = Fin fr" using r(3) by (cases "flatRate r") simp_all
  have "r = \<lparr>incomeRate = Fin ir, flatRate = Fin fr\<rparr>" using ir fr by (cases r) simp
  moreover have "0 \<le> ir" "0 \<le> fr" using r(4,5) ir fr by simp_all
  ultimately show thesis using that r(1) by blast
qed

text \<open>An unknown key that no prototype member bears falls back to the last bucket.\<close>

lemma insuranceRate_fallback:
  assumes "map_of HEALTH_INSURANCE_RATES k = None" and "k \<notin> set Object_prototype_names"
  shows "insuranceRate_of (s\<lparr>prefecture := k\<rparr>) = insuranceRate_of (s\<lparr>prefecture := pref_Sonota\<rparr>)"
  using assms by (simp add: insuranceRate_of_def get_property_def js_or_def default_bucket)

text \<open>The name of an inherited member finds that member, and no fallback happens.\<close>

lemma insuranceRate_inherited:
  assumes "k \<in> set Object_prototype_names"
  shows "insuranceRate_of (s\<lparr>prefecture := k\<rparr>) = Inherited"
proof -
  have "map_of HEALTH_INSURANCE_RATES k = None"
    using assms unfolding HEALTH_INSURANCE_RATES_def Object_prototype_names_def literal_defs
    by (elim disjE | simp)+
  with assms show ?thesis
    by (simp add: insuranceRate_of_def get_property_def js_or_def)
qed


section \<open>The breakdown on finite numbers\<close>

lemma floor_rat_numeral [simp]:
  "\<lfloor>(numeral a :: rat) / numeral b\<rfloor> = numeral a div numeral b"
  using floor_divide_of_int_eq[of "numeral a" "numeral b", where ?'a = rat] by simp



lemma Math_max_zero_not_negative: "\<not> jlt (Math_max (Fin 0) x) (Fin 0)"
  by (cases x) (simp_all add: Math_max_def)

lemma Math_max_zero_clamps: "jle x (Fin 0) \<Longrightarrow> Math_max (Fin 0) x = Fin 0"
  by (cases x) (simp_all add: Math_max_def)

lemma progressiveTax_Fin: "progressiveTax (Fin t) = Fin (ptax t)"
  by (simp add: progressiveTax_def ptax_def jsub_def algebra_simps)



lemma revenue_Fin:
  "expenseRate s = Fin e \<Longrightarrow> revenue_of (Fin a) s = Fin (a - a * (e / 100))"
  by (simp add: revenue_of_def expenses_of_def jsub_def)

lemma netOfDeductions_Fin:
  "expenseRate s = Fin e \<Longrightarrow> dependents s = Fin d \<Longrightarrow>
   netOfDeductions (Fin a) s = Fin (a - a * (e / 100) - deductions_sum s d)"
  by (cases "blueReturnType s")
     (simp_all add: netOfDeductions_def revenue_Fin jsub_def basicDeduction_def
        spouseDeduction_of_def dependentDeduction_of_def socialInsuranceDeduction_def
        deductions_sum_def)

lemma taxableIncome_Fin:
  "expenseRate s = Fin e \<Longrightarrow> dependents s = Fin d \<Longrightarrow>
   taxableIncome_of (Fin a) s = Fin (max 0 (a - a * (e / 100) - deductions_sum s d))"
  by (simp add: taxableIncome_of_def netOfDeductions_Fin Math_max_def max_def)

lemma incomeTax_Fin: "incomeTax_of (Fin t) = Fin (of_int \<lfloor>ptax t * 1.021\<rfloor>)"
  by (simp add: incomeTax_of_def progressiveTax_Fin)

lemma residentTax_Fin: "residentTax_of (Fin t) = Fin (of_int \<lfloor>t * 0.1\<rfloor> + 5000)"
  by (simp add: residentTax_of_def)

lemma incomeTax_zero: "incomeTax_of (Fin 0) = Fin 0"
  by (simp add: incomeTax_Fin ptax_def)

lemma residentTax_zero: "residentTax_of (Fin 0) = Fin 5000"
  by (simp add: residentTax_Fin)

lemma healthInsurance_Fin:
  "healthInsurance_of (Fin v) (RateObject \<lparr>incomeRate = Fin ir, flatRate = Fin fr\<rparr>)
   = Fin (min (of_int \<lfloor>v * ir\<rfloor> + fr) 1020000)"
  by (simp add: healthInsurance_of_def Math_min_def min_def)

lemma healthInsurance_inherited: "healthInsurance_of v Inherited = NaN"
  by (cases v) (simp_all add: healthInsurance_of_def Math_min_def)

text \<open>The ceiling holds whatever the revenue and the rates are.\<close>

lemma healthInsurance_capped: "\<not> jgt (healthInsurance_of v r) (Fin 1020000)"
proof -
  have "\<not> jlt (Fin 1020000) (Math_min x (Fin 1020000))" for x
    by (cases x) (simp_all add: Math_min_def)
  then show ?thesis by (simp add: healthInsurance_of_def jgt_def)
qed


lemma calculateDetailedTax_fields:
  "incomeTax (calculateDetailedTax a s) = incomeTax_of (taxableIncome_of a s)"
  "residentTax (calculateDetailedTax a s) = residentTax_of (taxableIncome_of a s)"
  "healthInsurance (calculateDetailedTax a s) =
     healthInsurance_of (revenue_of a s) (insuranceRate_of s)"
  "pension (calculateDetailedTax a s) = pension_const"
  "businessTax (calculateDetailedTax a s) = businessTax_of (revenue_of a s) s"
  "total (calculateDetailedTax a s) =
     jadd (jadd (jadd (jadd (incomeTax_of (taxableIncome_of a s))
                            (residentTax_of (taxableIncome_of a s)))
                      (healthInsurance_of (revenue_of a s) (insuranceRate_of s)))
                pension_const)
          (businessTax_of (revenue_of a s) s)"
  by (simp_all add: calculateDetailedTax_def Let_def)









section \<open>Facts about the handler\<close>

lemmas parse_defs = parseFloat_def StrUnsignedDecimalLiteral_def StrWhiteSpaceChar_def
  is_digit_def digit_def digits_value_def exponent_of_def scale10_def






lemma parse_100000: "parseFloat ''100000'' = Fin 100000"
  by (simp add: parse_defs)

lemma parse_500000: "parseFloat ''500000'' = Fin 500000"
  by (simp add: parse_defs)



lemma handleCalculate_accepted:
  assumes "parseFloat (amount_form st) = n" and "\<not> isNaN n" and "\<not> jle n (Fin 0)"
  shows "handleCalculate now st =
     (st\<lparr>result := Some (newCalculation_of now st n),
          calculations := calculations st @ [newCalculation_of now st n],
          projectName_form := [], amount_form := []\<rparr>,
      calls_of st n)"
  using assms by (simp add: handleCalculate_def Let_def)

lemma newCalculation_fields:
  "amount (newCalculation_of now st n) = n"
  "withholdingAmount (newCalculation_of now st n) =
     withholdingAmount_of n (includesTax_form st) (hasWithholding_form st)"
  "depositAmount (newCalculation_of now st n) =
     depositAmount_of n (includesTax_form st) (hasWithholding_form st)"
  "taxBreakdown (newCalculation_of now st n) =
     calculateDetailedTax (annualIncome_of (calculations st) n) (settings st)"
  by (simp_all add: newCalculation_of_def Let_def)




section \<open>The guard of the handler\<close>




section \<open>The withholding tiers\<close>



section \<open>The clamp on the taxable income\<close>

text \<open>
  C3. Whatever the revenue and the settings, the taxable income is \<^verbatim>\<open>Math.max\<close> of zero and
  the revenue net of expenses and deductions, so it is never below zero (and at least zero
  as soon as the revenue, the expense rate and the number of dependents are finite). When
  the net amount is at most zero the taxable income is zero, the income tax of the breakdown
  is 0 and its resident tax is exactly 5,000.
\<close>

theorem taxableIncome_clamped:
  "taxableIncome_of annualIncome s = Math_max (Fin 0) (netOfDeductions annualIncome s)
   \<and> \<not> jlt (taxableIncome_of annualIncome s) (Fin 0)
   \<and> (isFinite annualIncome \<and> isFinite (expenseRate s) \<and> isFinite (dependents s)
        \<longrightarrow> jle (Fin 0) (taxableIncome_of annualIncome s))
   \<and> (jle (netOfDeductions annualIncome s) (Fin 0)
        \<longrightarrow> taxableIncome_of annualIncome s = Fin 0
          \<and> incomeTax (calculateDetailedTax annualIncome s) = Fin 0
          \<and> residentTax (calculateDetailedTax annualIncome s) = Fin 5000)"
proof (intro conjI impI)
  show "taxableIncome_of annualIncome s = Math_max (Fin 0) (netOfDeductions annualIncome s)"
    by (simp add: taxableIncome_of_def)
  show "\<not> jlt (taxableIncome_of annualIncome s) (Fin 0)"
    by (simp add: taxableIncome_of_def Math_max_zero_not_negative)
next
  assume "isFinite annualIncome \<and> isFinite (expenseRate s) \<and> isFinite (dependents s)"
  then obtain a e d where "annualIncome = Fin a" "expenseRate s = Fin e" "dependents s = Fin d"
    by (cases annualIncome; cases "expenseRate s"; cases "dependents s") simp_all
  then show "jle (Fin 0) (taxableIncome_of annualIncome s)"
    by (simp add: taxableIncome_Fin)
next
  assume le: "jle (netOfDeductions annualIncome s) (Fin 0)"
  then show z: "taxableIncome_of annualIncome s = Fin 0"
    by (simp add: taxableIncome_of_def Math_max_zero_clamps)
  show "incomeTax (calculateDetailedTax annualIncome s) = Fin 0"
    by (simp add: calculateDetailedTax_fields z incomeTax_zero)
  show "residentTax (calculateDetailedTax annualIncome s) = Fin 5000"
    by (simp add: calculateDetailedTax_fields z residentTax_zero)
qed

theorem taxableIncome_clamped_witness:
  "netOfDeductions (Fin 1200000) default_settings = Fin (- 489200)
   \<and> jle (Fin 0) (taxableIncome_of (Fin 1200000) default_settings)
   \<and> taxableIncome_of (Fin 1200000) default_settings = Fin 0
   \<and> incomeTax (calculateDetailedTax (Fin 1200000) default_settings) = Fin 0
   \<and> residentTax (calculateDetailedTax (Fin 1200000) default_settings) = Fin 5000"
proof -
  have n: "netOfDeductions (Fin 1200000) default_settings = Fin (- 489200)"
    by (simp add: netOfDeductions_Fin[of _ 30 0] default_settings_def deductions_sum_def)
  then have h: "jle (netOfDeductions (Fin 1200000) default_settings) (Fin 0)" by simp
  have f: "isFinite (Fin 1200000) \<and> isFinite (expenseRate default_settings)
         \<and> isFinite (dependents default_settings)"
    by (simp add: default_settings_def)
  note t = taxableIncome_clamped[of "Fin 1200000" default_settings, THEN conjunct2, THEN conjunct2]
  from n t[THEN conjunct1, rule_format, OF f] t[THEN conjunct2, rule_format, OF h]
  show ?thesis by (intro conjI) simp_all
qed

section \<open>Health insurance and the region key\<close>

text \<open>
  For a key that resolves to a bucket, the component is the floor of the revenue times the
  income rate of the bucket, plus its flat rate, capped at 1,020,000.
\<close>

lemma healthInsurance_formula:
  assumes "expenseRate s = Fin e" and "prefecture s \<notin> set Object_prototype_names"
  obtains ir fr where
    "insuranceRate_of s = RateObject \<lparr>incomeRate = Fin ir, flatRate = Fin fr\<rparr>"
    and "healthInsurance (calculateDetailedTax (Fin a) s) =
           Fin (min (of_int \<lfloor>(a - a * (e / 100)) * ir\<rfloor> + fr) 1020000)"
proof -
  obtain ir fr where r: "insuranceRate_of s = RateObject \<lparr>incomeRate = Fin ir, flatRate = Fin fr\<rparr>"
    using insuranceRate_bucket[OF assms(2)] by blast
  have "healthInsurance (calculateDetailedTax (Fin a) s) =
           Fin (min (of_int \<lfloor>(a - a * (e / 100)) * ir\<rfloor> + fr) 1020000)"
    by (simp only: calculateDetailedTax_fields r revenue_Fin[OF assms(1)] healthInsurance_Fin)
  with r that show thesis by blast
qed

text \<open>
  C4, at the input where the code leaves it. The claim says that a region key the table
  does not know resolves to the last bucket. The key \<^verbatim>\<open>constructor\<close> is not in the table,
  yet the lookup finds the member of that name that every object inherits, which is truthy,
  so the fallback after \<^verbatim>\<open>||\<close> is not taken; the member has no rates, and the health
  insurance and the total of the breakdown are \<^verbatim>\<open>NaN\<close>. With the key of the last bucket the
  same revenue gives 124,800.
\<close>

theorem healthInsurance_inherited_key:
  "map_of HEALTH_INSURANCE_RATES ''constructor'' = None
   \<and> healthInsurance (calculateDetailedTax (Fin 1200000)
        (default_settings\<lparr>prefecture := ''constructor''\<rparr>)) = NaN
   \<and> total (calculateDetailedTax (Fin 1200000)
        (default_settings\<lparr>prefecture := ''constructor''\<rparr>)) = NaN
   \<and> healthInsurance (calculateDetailedTax (Fin 1200000)
        (default_settings\<lparr>prefecture := pref_Sonota\<rparr>)) = Fin 124800"
proof (intro conjI)
  show "map_of HEALTH_INSURANCE_RATES ''constructor'' = None"
    by (simp add: HEALTH_INSURANCE_RATES_def literal_defs)
  have i: "insuranceRate_of (default_settings\<lparr>prefecture := ''constructor''\<rparr>) = Inherited"
    by (rule insuranceRate_inherited) (simp add: Object_prototype_names_def)
  show "healthInsurance (calculateDetailedTax (Fin 1200000)
          (default_settings\<lparr>prefecture := ''constructor''\<rparr>)) = NaN"
    by (simp add: calculateDetailedTax_fields i healthInsurance_inherited)
  have "jadd (jadd (jadd x NaN) y) z = NaN" for x y z
    by (cases x; cases y; cases z) simp_all
  then show "total (calculateDetailedTax (Fin 1200000)
          (default_settings\<lparr>prefecture := ''constructor''\<rparr>)) = NaN"
    by (simp add: calculateDetailedTax_fields i healthInsurance_inherited)
  have r: "insuranceRate_of (default_settings\<lparr>prefecture := pref_Sonota\<rparr>)
         = RateObject \<lparr>incomeRate = Fin 0.0950, flatRate = Fin 45000\<rparr>"
    by (simp add: insuranceRate_of_def js_or_def default_bucket)
  have e: "expenseRate (default_settings\<lparr>prefecture := pref_Sonota\<rparr>) = Fin 30"
    by (simp add: default_settings_def)
  show "healthInsurance (calculateDetailedTax (Fin 1200000)
          (default_settings\<lparr>prefecture := pref_Sonota\<rparr>)) = Fin 124800"
    by (simp add: calculateDetailedTax_fields r revenue_Fin[OF e] healthInsurance_Fin)
qed

section \<open>Monotonicity of the total\<close>




section \<open>Business tax\<close>



section \<open>The annual income estimate\<close>

lemma foldl_amounts:
  "map amount cs = map Fin xs \<Longrightarrow>
   foldl (\<lambda>sum calc. jadd sum (amount calc)) (Fin z) cs = Fin (z + sum_list xs)"
proof (induction cs arbitrary: z xs)
  case Nil
  then show ?case by simp
next
  case (Cons c cs)
  then obtain x xs' where xs: "xs = x # xs'" "amount c = Fin x" "map amount cs = map Fin xs'"
    by (cases xs) auto
  show ?case using Cons.IH[OF xs(3), of "z + x"] by (simp add: xs add.assoc)
qed

text \<open>
  C7. On every run that passes the guard, the annual income handed to
  \<^verbatim>\<open>calculateDetailedTax\<close> (the argument of the last call of the run, and the income the
  stored breakdown is computed from) is the estimate: the amount read times 12 when the
  history is empty, and otherwise 12 times the sum of the amounts of the last three entries
  (of all entries when there are fewer) divided by their number. The history is the one
  before the new entry is appended. When the amounts of the history are the finite numbers
  \<open>xs\<close>, the estimate is 12 times their trailing mean as the specification words it.
\<close>

theorem annualIncome_estimate:
  assumes "parseFloat (amount_form st) = n" and "\<not> isNaN n" and "\<not> jle n (Fin 0)"
  shows "last (snd (handleCalculate now st)) =
           DetailedTaxCall (annualIncome_of (calculations st) n) (settings st)
       \<and> map taxBreakdown
            (drop (length (calculations st)) (calculations (fst (handleCalculate now st))))
           = [calculateDetailedTax (annualIncome_of (calculations st) n) (settings st)]
       \<and> (calculations st = [] \<longrightarrow> annualIncome_of (calculations st) n = jmul n (Fin 12))
       \<and> (calculations st \<noteq> [] \<longrightarrow>
            annualIncome_of (calculations st) n =
              jmul (jdiv (foldl (\<lambda>sum calc. jadd sum (amount calc)) (Fin 0)
                            (drop (length (calculations st) - 3) (calculations st)))
                         (Fin (of_nat (min 3 (length (calculations st))))))
                   (Fin 12))
       \<and> (\<forall>xs. xs \<noteq> [] \<and> map amount (calculations st) = map Fin xs \<longrightarrow>
            annualIncome_of (calculations st) n = Fin (spec_trailing_mean xs * 12))"
proof (intro conjI allI impI)
  note h = handleCalculate_accepted[OF assms, of now]
  show "last (snd (handleCalculate now st)) =
           DetailedTaxCall (annualIncome_of (calculations st) n) (settings st)"
    unfolding h by (simp add: calls_of_def)
  show "map taxBreakdown
          (drop (length (calculations st)) (calculations (fst (handleCalculate now st))))
           = [calculateDetailedTax (annualIncome_of (calculations st) n) (settings st)]"
    unfolding h by (simp add: newCalculation_fields)
next
  assume "calculations st = []"
  then show "annualIncome_of (calculations st) n = jmul n (Fin 12)"
    by (simp add: annualIncome_of_def avgMonthly_of_def recentCalculations_of_def)
next
  assume ne: "calculations st \<noteq> []"
  then have "0 < length (calculations st)" by simp
  then have "min 3 (length (calculations st))
               = length (calculations st) - (length (calculations st) - 3)"
    and "\<not> length (calculations st) \<le> length (calculations st) - 3"
    by linarith+
  then show "annualIncome_of (calculations st) n =
              jmul (jdiv (foldl (\<lambda>sum calc. jadd sum (amount calc)) (Fin 0)
                            (drop (length (calculations st) - 3) (calculations st)))
                         (Fin (of_nat (min 3 (length (calculations st))))))
                   (Fin 12)"
    by (simp add: annualIncome_of_def avgMonthly_of_def recentCalculations_of_def Let_def)
next
  fix xs :: "rat list"
  assume a: "xs \<noteq> [] \<and> map amount (calculations st) = map Fin xs"
  then have len: "length (calculations st) = length xs" by (metis length_map)
  let ?k = "length xs - 3"
  have "drop ?k (map amount (calculations st)) = drop ?k (map Fin xs)"
    using a by simp
  then have m: "map amount (drop ?k (calculations st)) = map Fin (drop ?k xs)"
    by (simp only: drop_map)
  have f: "foldl (\<lambda>sum calc. jadd sum (amount calc)) (Fin 0) (drop ?k (calculations st))
        = Fin (sum_list (drop ?k xs))"
    using foldl_amounts[OF m, of 0] by simp
  define c where "c = min 3 (length xs)"
  have cpos: "0 < c" using a unfolding c_def by (cases xs) simp_all
  have rl: "length (recentCalculations_of (calculations st)) = c"
    unfolding recentCalculations_of_def c_def by (simp add: len)
  have "avgMonthly_of (calculations st) n =
          jdiv (foldl (\<lambda>sum calc. jadd sum (amount calc)) (Fin 0)
                  (recentCalculations_of (calculations st))) (Fin (of_nat c))"
    unfolding avgMonthly_of_def Let_def rl using cpos by simp
  also have "recentCalculations_of (calculations st) = drop ?k (calculations st)"
    by (simp add: recentCalculations_of_def len)
  also have "jdiv (foldl (\<lambda>sum calc. jadd sum (amount calc)) (Fin 0) (drop ?k (calculations st)))
               (Fin (of_nat c)) = Fin (sum_list (drop ?k xs) / of_nat c)"
    unfolding f using cpos by simp
  finally have "avgMonthly_of (calculations st) n = Fin (spec_trailing_mean xs)"
    by (simp add: spec_trailing_mean_def c_def)
  then show "annualIncome_of (calculations st) n = Fin (spec_trailing_mean xs * 12)"
    by (simp add: annualIncome_of_def)
qed

theorem annualIncome_estimate_witness:
  "last (snd (handleCalculate 0 history_state)) = DetailedTaxCall (Fin 3600000) default_settings
   \<and> last (snd (handleCalculate 0 example_state)) = DetailedTaxCall (Fin 1200000) default_settings"
proof
  have p: "parseFloat (amount_form history_state) = Fin 500000"
    by (simp add: history_state_def initial_state_def parse_500000)
  note t = annualIncome_estimate[OF p, of 0]
  have m: "[100000, 200000, 300000, 400000] \<noteq> [] \<and>
           map amount (calculations history_state) = map Fin [100000, 200000, 300000, 400000]"
    by (simp add: history_state_def initial_state_def newCalculation_fields)
  have g: "\<not> isNaN (Fin 500000)" "\<not> jle (Fin 500000) (Fin 0)" by simp_all
  have "annualIncome_of (calculations history_state) (Fin 500000)
          = Fin (spec_trailing_mean [100000, 200000, 300000, 400000] * 12)"
    by (rule t[OF g, THEN conjunct2, THEN conjunct2, THEN conjunct2, THEN conjunct2,
          rule_format, OF m])
  then have a: "annualIncome_of (calculations history_state) (Fin 500000) = Fin 3600000"
    by (simp add: spec_trailing_mean_def)
  have s: "settings history_state = default_settings"
    by (simp add: history_state_def initial_state_def)
  show "last (snd (handleCalculate 0 history_state)) = DetailedTaxCall (Fin 3600000) default_settings"
    using t[OF g, THEN conjunct1] by (simp add: a s)
next
  have p: "parseFloat (amount_form example_state) = Fin 100000"
    by (simp add: example_state_def initial_state_def parse_100000)
  have g: "\<not> isNaN (Fin 100000)" "\<not> jle (Fin 100000) (Fin 0)" by simp_all
  note t = annualIncome_estimate[OF p g, of 0]
  have e: "calculations example_state = []" by (simp add: example_state_def initial_state_def)
  have a: "annualIncome_of (calculations example_state) (Fin 100000) = Fin 1200000"
    using t[THEN conjunct2, THEN conjunct2, THEN conjunct1, rule_format, OF e] by simp
  have s: "settings example_state = default_settings"
    by (simp add: example_state_def initial_state_def)
  show "last (snd (handleCalculate 0 example_state)) = DetailedTaxCall (Fin 1200000) default_settings"
    using t[THEN conjunct1] by (simp add: a s)
qed

section \<open>The end-to-end example\<close>

text \<open>
  C8. With an empty history, 100000 in the amount field and both boxes unticked, whatever
  the settings, the project name, the earlier result and the clock: the consumption tax is
  exactly 10,000; the handler stores one record, whose amount is 100,000, whose withholding
  is 0 and whose deposit is exactly 110,000; its only calculator call is that of
  \<^verbatim>\<open>calculateDetailedTax\<close> with an annual income of exactly 1,200,000, and the breakdown of
  the record is the one of that income.
\<close>

theorem example_100000:
  assumes "calculations st = []" and "amount_form st = ''100000''"
    and "\<not> includesTax_form st" and "\<not> hasWithholding_form st"
  shows "consumptionTax_of (parseFloat (amount_form st)) (includesTax_form st) = Fin 10000
       \<and> (\<exists>c. handleCalculate now st =
                 (st\<lparr>result := Some c, calculations := [c], projectName_form := [],
                     amount_form := []\<rparr>,
                  [DetailedTaxCall (Fin 1200000) (settings st)])
              \<and> amount c = Fin 100000
              \<and> withholdingAmount c = Fin 0
              \<and> depositAmount c = Fin 110000
              \<and> taxBreakdown c = calculateDetailedTax (Fin 1200000) (settings st))"
proof
  have p: "parseFloat (amount_form st) = Fin 100000" using assms(2) by (simp add: parse_100000)
  show "consumptionTax_of (parseFloat (amount_form st)) (includesTax_form st) = Fin 10000"
    unfolding p using assms(3) by (simp add: consumptionTax_of_def)
  let ?c = "newCalculation_of now st (Fin 100000)"
  have a0: "annualIncome_of [] (Fin 100000) = Fin 1200000"
    by (simp add: annualIncome_of_def avgMonthly_of_def recentCalculations_of_def)
  then have a: "annualIncome_of (calculations st) (Fin 100000) = Fin 1200000"
    using assms(1) by simp
  have h: "handleCalculate now st =
     (st\<lparr>result := Some ?c, calculations := calculations st @ [?c],
          projectName_form := [], amount_form := []\<rparr>, calls_of st (Fin 100000))"
    by (rule handleCalculate_accepted[OF p]) simp_all
  have 1: "handleCalculate now st =
     (st\<lparr>result := Some ?c, calculations := [?c], projectName_form := [], amount_form := []\<rparr>,
      [DetailedTaxCall (Fin 1200000) (settings st)])"
    unfolding h using assms(1,4) by (simp add: calls_of_def a0)
  have 2: "amount ?c = Fin 100000" by (simp add: newCalculation_fields)
  have 3: "withholdingAmount ?c = Fin 0"
    using assms(4) by (simp add: newCalculation_fields withholdingAmount_of_def)
  have 4: "depositAmount ?c = Fin 110000"
    using assms(3,4)
    by (simp add: newCalculation_fields depositAmount_of_def withholdingAmount_of_def
        consumptionTax_of_def jsub_def)
  have 5: "taxBreakdown ?c = calculateDetailedTax (Fin 1200000) (settings st)"
    by (simp add: newCalculation_fields a)
  from 1 2 3 4 5
  show "\<exists>c. handleCalculate now st =
                 (st\<lparr>result := Some c, calculations := [c], projectName_form := [],
                     amount_form := []\<rparr>,
                  [DetailedTaxCall (Fin 1200000) (settings st)])
              \<and> amount c = Fin 100000
              \<and> withholdingAmount c = Fin 0
              \<and> depositAmount c = Fin 110000
              \<and> taxBreakdown c = calculateDetailedTax (Fin 1200000) (settings st)"
    by (intro exI[of _ ?c] conjI)
qed

theorem example_100000_witness:
  "consumptionTax_of (parseFloat (amount_form example_state)) (includesTax_form example_state)
     = Fin 10000
   \<and> map withholdingAmount (calculations (fst (handleCalculate 0 example_state))) = [Fin 0]
   \<and> map depositAmount (calculations (fst (handleCalculate 0 example_state))) = [Fin 110000]
   \<and> snd (handleCalculate 0 example_state) = [DetailedTaxCall (Fin 1200000) default_settings]"
proof -
  have h: "calculations example_state = []" "amount_form example_state = ''100000''"
    "\<not> includesTax_form example_state" "\<not> hasWithholding_form example_state"
    by (simp_all add: example_state_def initial_state_def)
  note t = example_100000[OF h, of 0]
  from t[THEN conjunct2] obtain c where c:
    "handleCalculate 0 example_state =
       (example_state\<lparr>result := Some c, calculations := [c], projectName_form := [],
          amount_form := []\<rparr>, [DetailedTaxCall (Fin 1200000) (settings example_state)])"
    "withholdingAmount c = Fin 0" "depositAmount c = Fin 110000"
    by blast
  have s: "settings example_state = default_settings"
    by (simp add: example_state_def initial_state_def)
  show ?thesis
    unfolding c(1) using t[THEN conjunct1] c(2,3) by (simp add: s)
qed

section \<open>The invariant of the breakdown\<close>




section \<open>The deposit\<close>






end
